theory Spec2Isabelle
  imports Complex_Main "HOL-Library.Stream"
begin

section \<open>Python values used by the synthesizer\<close>

text \<open>
  Python floats are modelled as mathematical reals, so the model is exact where the
  program rounds.  Exceptions are values of the type \<open>error\<close>.
\<close>

datatype error =
  ZeroDivisionError | AssertionError | ValueError | TypeError | IndexError | StopIteration

text \<open>
  A Python generator: a lazy sequence of yielded values that may go on forever, end
  (\<open>Return\<close>) or raise.  Code of a generator function that runs before its first
  \<^verbatim>\<open>yield\<close> runs at the first pull, so an exception there is a generator that
  raises at once.
\<close>

codatatype 'a gen = Yield 'a "'a gen" | Return | Raise error

text \<open>The values of the first \<open>n\<close> pulls (fewer when the generator ends or raises).\<close>

fun gtake :: "nat \<Rightarrow> 'a gen \<Rightarrow> 'a list" where
  "gtake 0 g = []"
| "gtake (Suc n) g = (case g of Yield v g' \<Rightarrow> v # gtake n g' | Return \<Rightarrow> [] | Raise e \<Rightarrow> [])"

text \<open>What is left of a generator after \<open>n\<close> pulls.\<close>

fun gdrop :: "nat \<Rightarrow> 'a gen \<Rightarrow> 'a gen" where
  "gdrop 0 g = g"
| "gdrop (Suc n) g = (case g of Yield v g' \<Rightarrow> gdrop n g' | Return \<Rightarrow> Return | Raise e \<Rightarrow> Raise e)"

text \<open>\<^verbatim>\<open>int(x)\<close> on a float truncates towards zero.\<close>

definition py_int :: "real \<Rightarrow> int" where
  "py_int x = (if 0 \<le> x then \<lfloor>x\<rfloor> else \<lceil>x\<rceil>)"

text \<open>\<^verbatim>\<open>x % 1\<close> on a float: the result has the sign of the divisor.\<close>

definition py_mod1 :: "real \<Rightarrow> real" where
  "py_mod1 x = x - of_int \<lfloor>x\<rfloor>"

text \<open>\<^verbatim>\<open>a / b\<close> raises on a zero divisor.\<close>

definition py_div :: "real \<Rightarrow> real \<Rightarrow> error + real" where
  "py_div a b = (if b = 0 then Inl ZeroDivisionError else Inr (a / b))"

text \<open>\<^verbatim>\<open>range(start, stop, step)\<close> for a positive step.\<close>

definition py_range :: "int \<Rightarrow> int \<Rightarrow> int \<Rightarrow> int list" where
  "py_range start stop step =
     map (\<lambda>i. start + step * int i) [0 ..< nat ((stop - start + step - 1) div step)]"

text \<open>\<^verbatim>\<open>math.log(x, base)\<close> is \<open>log(x) / log(base)\<close>, each logarithm raising
  outside its domain.\<close>

definition py_log :: "real \<Rightarrow> real \<Rightarrow> error + real" where
  "py_log x base =
     (if x \<le> 0 \<or> base \<le> 0 then Inl ValueError
      else if ln base = 0 then Inl ZeroDivisionError
      else Inr (ln x / ln base))"

text \<open>The constants of \<^verbatim>\<open>sys.float_info\<close> for IEEE doubles.\<close>

definition float_info_epsilon :: real where
  "float_info_epsilon = 1 / 2 ^ 52"

definition float_info_min :: real where
  "float_info_min = 1 / 2 ^ 1022"

definition float_info_max :: real where
  "float_info_max = (2 - 1 / 2 ^ 52) * 2 ^ 1023"

section \<open>The frequency helper\<close>

text \<open>
  \<^verbatim>\<open>def key_freq(key_number, a4=440.0): return 2**((key_number-49)/12) * a4\<close>
\<close>

definition key_freq :: "int \<Rightarrow> real \<Rightarrow> real" where
  "key_freq key_number a4 = 2 powr ((real_of_int key_number - 49) / 12) * a4"

text \<open>The call with the default reference frequency.\<close>

definition key_freq_default :: "int \<Rightarrow> real" where
  "key_freq_default key_number = key_freq key_number 440"

section \<open>Primitive oscillators\<close>

text \<open>
  Each oscillator class is a function from its constructor arguments to the generator
  that iterating the object gives.  The argument \<open>samplerate\<close> is the attribute
  \<^verbatim>\<open>self.samplerate\<close>, which \<^verbatim>\<open>OscillatorBase.__init__\<close> takes from the
  constructor argument unless that is zero or absent (then it is a constant of the sample
  module; the facade pulls nothing from an oscillator when its own rate is zero).
  Modulation sources are unbounded streams; \<open>None\<close> is an absent source.
\<close>

text \<open>\<^verbatim>\<open>iter(fm_lfo or itertools.repeat(0.0))\<close>\<close>

definition fm_iter :: "real stream option \<Rightarrow> real stream" where
  "fm_iter fm_lfo = (case fm_lfo of None \<Rightarrow> sconst 0 | Some lfo \<Rightarrow> lfo)"

subsection \<open>Sine\<close>

primcorec Sine_loop ::
  "real \<Rightarrow> real \<Rightarrow> real \<Rightarrow> real \<Rightarrow> real \<Rightarrow> real \<Rightarrow> real \<Rightarrow> real stream \<Rightarrow> real gen" where
  "Sine_loop frequency amplitude bias increment phase_correction freq_previous t fm =
     (let freq = frequency * (1 + shd fm);
          phase_correction' = phase_correction + (freq_previous - freq) * t
      in Yield (sin (t * freq + phase_correction') * amplitude + bias)
           (Sine_loop frequency amplitude bias increment phase_correction' freq
              (t + increment) (stl fm)))"

definition Sine ::
  "real \<Rightarrow> real \<Rightarrow> real \<Rightarrow> real \<Rightarrow> real stream option \<Rightarrow> real \<Rightarrow> real gen" where
  "Sine frequency amplitude phase bias fm_lfo samplerate =
     (case py_div (2 * pi) samplerate of
        Inl e \<Rightarrow> Raise e
      | Inr increment \<Rightarrow>
          Sine_loop frequency amplitude bias increment (phase * 2 * pi) frequency 0
            (fm_iter fm_lfo))"

primcorec FastSine_loop :: "real \<Rightarrow> real \<Rightarrow> real \<Rightarrow> real \<Rightarrow> real gen" where
  "FastSine_loop amplitude bias increment t =
     Yield (sin t * amplitude + bias) (FastSine_loop amplitude bias increment (t + increment))"

definition FastSine :: "real \<Rightarrow> real \<Rightarrow> real \<Rightarrow> real \<Rightarrow> real \<Rightarrow> real gen" where
  "FastSine frequency amplitude phase bias samplerate =
     (case py_div samplerate frequency of
        Inl e \<Rightarrow> Raise e
      | Inr rate \<Rightarrow>
          (case py_div (2 * pi) rate of
             Inl e \<Rightarrow> Raise e
           | Inr increment \<Rightarrow> FastSine_loop amplitude bias increment (phase * 2 * pi)))"

subsection \<open>Triangle\<close>

primcorec Triangle_loop ::
  "real \<Rightarrow> real \<Rightarrow> real \<Rightarrow> real \<Rightarrow> real \<Rightarrow> real \<Rightarrow> real \<Rightarrow> real stream \<Rightarrow> real gen" where
  "Triangle_loop frequency amplitude bias increment phase_correction freq_previous t fm =
     (let freq = frequency * (1 + shd fm);
          phase_correction' = phase_correction + (freq_previous - freq) * t;
          tt = t * freq + phase_correction'
      in Yield (4 * amplitude * (\<bar>py_mod1 (tt + 0.75) - 0.5\<bar> - 0.25) + bias)
           (Triangle_loop frequency amplitude bias increment phase_correction' freq
              (t + increment) (stl fm)))"

definition Triangle ::
  "real \<Rightarrow> real \<Rightarrow> real \<Rightarrow> real \<Rightarrow> real stream option \<Rightarrow> real \<Rightarrow> real gen" where
  "Triangle frequency amplitude phase bias fm_lfo samplerate =
     (case py_div 1 samplerate of
        Inl e \<Rightarrow> Raise e
      | Inr increment \<Rightarrow>
          Triangle_loop frequency amplitude bias increment phase frequency 0 (fm_iter fm_lfo))"

primcorec FastTriangle_loop :: "real \<Rightarrow> real \<Rightarrow> real \<Rightarrow> real \<Rightarrow> real \<Rightarrow> real gen" where
  "FastTriangle_loop freq amplitude bias increment t =
     Yield (4 * amplitude * (\<bar>py_mod1 (t * freq + 0.75) - 0.5\<bar> - 0.25) + bias)
       (FastTriangle_loop freq amplitude bias increment (t + increment))"

definition FastTriangle :: "real \<Rightarrow> real \<Rightarrow> real \<Rightarrow> real \<Rightarrow> real \<Rightarrow> real gen" where
  "FastTriangle frequency amplitude phase bias samplerate =
     (case py_div phase frequency of
        Inl e \<Rightarrow> Raise e
      | Inr t \<Rightarrow>
          (case py_div 1 samplerate of
             Inl e \<Rightarrow> Raise e
           | Inr increment \<Rightarrow> FastTriangle_loop frequency amplitude bias increment t))"

subsection \<open>Square\<close>

primcorec Square_loop ::
  "real \<Rightarrow> real \<Rightarrow> real \<Rightarrow> real \<Rightarrow> real \<Rightarrow> real \<Rightarrow> real \<Rightarrow> real stream \<Rightarrow> real gen" where
  "Square_loop frequency amplitude bias increment phase_correction freq_previous t fm =
     (let freq = frequency * (1 + shd fm);
          phase_correction' = phase_correction + (freq_previous - freq) * t;
          tt = t * freq + phase_correction'
      in Yield ((if py_int (tt * 2) mod 2 \<noteq> 0 then - amplitude else amplitude) + bias)
           (Square_loop frequency amplitude bias increment phase_correction' freq
              (t + increment) (stl fm)))"

definition Square ::
  "real \<Rightarrow> real \<Rightarrow> real \<Rightarrow> real \<Rightarrow> real stream option \<Rightarrow> real \<Rightarrow> real gen" where
  "Square frequency amplitude phase bias fm_lfo samplerate =
     (case py_div 1 samplerate of
        Inl e \<Rightarrow> Raise e
      | Inr increment \<Rightarrow>
          Square_loop frequency amplitude bias increment phase frequency 0 (fm_iter fm_lfo))"

primcorec FastSquare_loop :: "real \<Rightarrow> real \<Rightarrow> real \<Rightarrow> real \<Rightarrow> real \<Rightarrow> real gen" where
  "FastSquare_loop freq amplitude bias increment t =
     Yield ((if py_int (t * freq * 2) mod 2 \<noteq> 0 then - amplitude else amplitude) + bias)
       (FastSquare_loop freq amplitude bias increment (t + increment))"

definition FastSquare :: "real \<Rightarrow> real \<Rightarrow> real \<Rightarrow> real \<Rightarrow> real \<Rightarrow> real gen" where
  "FastSquare frequency amplitude phase bias samplerate =
     (case py_div phase frequency of
        Inl e \<Rightarrow> Raise e
      | Inr t \<Rightarrow>
          (case py_div 1 samplerate of
             Inl e \<Rightarrow> Raise e
           | Inr increment \<Rightarrow> FastSquare_loop frequency amplitude bias increment t))"

subsection \<open>Sawtooth\<close>

primcorec Sawtooth_loop ::
  "real \<Rightarrow> real \<Rightarrow> real \<Rightarrow> real \<Rightarrow> real \<Rightarrow> real \<Rightarrow> real \<Rightarrow> real stream \<Rightarrow> real gen" where
  "Sawtooth_loop frequency amplitude bias increment phase_correction freq_previous t fm =
     (let freq = frequency * (1 + shd fm);
          phase_correction' = phase_correction + (freq_previous - freq) * t;
          tt = t * freq + phase_correction'
      in Yield (bias + amplitude * 2 * (tt - of_int \<lfloor>0.5 + tt\<rfloor>))
           (Sawtooth_loop frequency amplitude bias increment phase_correction' freq
              (t + increment) (stl fm)))"

definition Sawtooth ::
  "real \<Rightarrow> real \<Rightarrow> real \<Rightarrow> real \<Rightarrow> real stream option \<Rightarrow> real \<Rightarrow> real gen" where
  "Sawtooth frequency amplitude phase bias fm_lfo samplerate =
     (case py_div 1 samplerate of
        Inl e \<Rightarrow> Raise e
      | Inr increment \<Rightarrow>
          Sawtooth_loop frequency amplitude bias increment phase frequency 0 (fm_iter fm_lfo))"

primcorec FastSawtooth_loop :: "real \<Rightarrow> real \<Rightarrow> real \<Rightarrow> real \<Rightarrow> real \<Rightarrow> real gen" where
  "FastSawtooth_loop freq amplitude bias increment t =
     (let tt = t * freq
      in Yield (bias + 2 * amplitude * (tt - of_int \<lfloor>0.5 + tt\<rfloor>))
           (FastSawtooth_loop freq amplitude bias increment (t + increment)))"

definition FastSawtooth :: "real \<Rightarrow> real \<Rightarrow> real \<Rightarrow> real \<Rightarrow> real \<Rightarrow> real gen" where
  "FastSawtooth frequency amplitude phase bias samplerate =
     (case py_div phase frequency of
        Inl e \<Rightarrow> Raise e
      | Inr t \<Rightarrow>
          (case py_div 1 samplerate of
             Inl e \<Rightarrow> Raise e
           | Inr increment \<Rightarrow> FastSawtooth_loop frequency amplitude bias increment t))"

subsection \<open>Pulse\<close>

text \<open>
  The clamp that both pulse generators apply to a value pulled from the pulse-width source:
  \<^verbatim>\<open>if pw <= 0: pw = epsilon  elif pw >= 1: pw = 1.0-epsilon\<close>
\<close>

definition clamp_pw :: "real \<Rightarrow> real" where
  "clamp_pw pw =
     (if pw \<le> 0 then float_info_epsilon
      else if pw \<ge> 1 then 1 - float_info_epsilon
      else pw)"

text \<open>\<^verbatim>\<open>(self.amplitude if tt % 1 < pw else -self.amplitude)+self.bias\<close>\<close>

definition pulse_level :: "real \<Rightarrow> real \<Rightarrow> real \<Rightarrow> real \<Rightarrow> real" where
  "pulse_level amplitude bias tt pw = (if py_mod1 tt < pw then amplitude else - amplitude) + bias"

primcorec Pulse_loop ::
  "real \<Rightarrow> real \<Rightarrow> real \<Rightarrow> real \<Rightarrow> real \<Rightarrow> real \<Rightarrow> real \<Rightarrow> real stream \<Rightarrow> real stream
     \<Rightarrow> real gen" where
  "Pulse_loop frequency amplitude bias increment phase_correction freq_previous t fm pwm =
     (let pw = clamp_pw (shd pwm);
          freq = frequency * (1 + shd fm);
          phase_correction' = phase_correction + (freq_previous - freq) * t;
          tt = t * freq + phase_correction'
      in Yield (pulse_level amplitude bias tt pw)
           (Pulse_loop frequency amplitude bias increment phase_correction' freq
              (t + increment) (stl fm) (stl pwm)))"

text \<open>\<^verbatim>\<open>iter(pwm_lfo or itertools.repeat(pulsewidth))\<close>\<close>

definition pwm_iter :: "real stream option \<Rightarrow> real \<Rightarrow> real stream" where
  "pwm_iter pwm_lfo pulsewidth = (case pwm_lfo of None \<Rightarrow> sconst pulsewidth | Some lfo \<Rightarrow> lfo)"

definition Pulse ::
  "real \<Rightarrow> real \<Rightarrow> real \<Rightarrow> real \<Rightarrow> real \<Rightarrow> real stream option \<Rightarrow> real stream option \<Rightarrow> real
     \<Rightarrow> error + real gen" where
  "Pulse frequency amplitude phase bias pulsewidth fm_lfo pwm_lfo samplerate =
     (if \<not> (0 \<le> pulsewidth \<and> pulsewidth \<le> 1) then Inl AssertionError
      else Inr (case py_div 1 samplerate of
                  Inl e \<Rightarrow> Raise e
                | Inr increment \<Rightarrow>
                    Pulse_loop frequency amplitude bias increment phase frequency 0
                      (fm_iter fm_lfo) (pwm_iter pwm_lfo pulsewidth)))"

text \<open>The loop of \<^verbatim>\<open>FastPulse.generator\<close> with a pulse-width source.\<close>

primcorec FastPulse_pwm_loop ::
  "real \<Rightarrow> real \<Rightarrow> real \<Rightarrow> real \<Rightarrow> real \<Rightarrow> real stream \<Rightarrow> real gen" where
  "FastPulse_pwm_loop freq amplitude bias increment t pwm =
     (let pw = clamp_pw (shd pwm)
      in Yield (pulse_level amplitude bias (t * freq) pw)
           (FastPulse_pwm_loop freq amplitude bias increment (t + increment) (stl pwm)))"

text \<open>The loop of \<^verbatim>\<open>FastPulse.generator\<close> without one: \<open>pw\<close> is the attribute
  \<^verbatim>\<open>self._pulsewidth\<close> as it is.\<close>

primcorec FastPulse_fixed_loop ::
  "real \<Rightarrow> real \<Rightarrow> real \<Rightarrow> real \<Rightarrow> real \<Rightarrow> real \<Rightarrow> real gen" where
  "FastPulse_fixed_loop freq amplitude bias increment pw t =
     Yield (pulse_level amplitude bias (t * freq) pw)
       (FastPulse_fixed_loop freq amplitude bias increment pw (t + increment))"

definition FastPulse ::
  "real \<Rightarrow> real \<Rightarrow> real \<Rightarrow> real \<Rightarrow> real \<Rightarrow> real stream option \<Rightarrow> real \<Rightarrow> error + real gen" where
  "FastPulse frequency amplitude phase bias pulsewidth pwm_lfo samplerate =
     (if \<not> (0 \<le> pulsewidth \<and> pulsewidth \<le> 1) then Inl AssertionError
      else Inr (case pwm_lfo of
                  Some pwm \<Rightarrow>
                    (case py_div phase frequency of
                       Inl e \<Rightarrow> Raise e
                     | Inr t \<Rightarrow>
                         (case py_div 1 samplerate of
                            Inl e \<Rightarrow> Raise e
                          | Inr increment \<Rightarrow>
                              FastPulse_pwm_loop frequency amplitude bias increment t pwm))
                | None \<Rightarrow>
                    (case py_div phase frequency of
                       Inl e \<Rightarrow> Raise e
                     | Inr t \<Rightarrow>
                         (case py_div 1 samplerate of
                            Inl e \<Rightarrow> Raise e
                          | Inr increment \<Rightarrow>
                              FastPulse_fixed_loop frequency amplitude bias increment
                                pulsewidth t))))"

subsection \<open>Harmonics\<close>

text \<open>
  The addends of \<open>h\<close> for one sample, in the order the three loops of
  \<^verbatim>\<open>Harmonics.generator\<close> add them; \<open>num_harmonics\<close> is the clamped count.
\<close>

definition harmonic_terms :: "real \<Rightarrow> int \<Rightarrow> bool \<Rightarrow> bool \<Rightarrow> real list" where
  "harmonic_terms q num_harmonics only_even only_odd =
     (if only_odd then
        map (\<lambda>k. sin (q * of_int k) / of_int k) (py_range 1 (2 * num_harmonics) 2)
      else if only_even then
        (sin q * 0.7) # map (\<lambda>k. sin (q * of_int k) / of_int k) (py_range 2 (2 * num_harmonics) 2)
      else
        map (\<lambda>k. sin (q * of_int k) / of_int k / 2) (py_range 1 (1 + num_harmonics) 1))"

text \<open>\<^verbatim>\<open>min(self.num_harmonics, int(self.samplerate/2/self.frequency))\<close>\<close>

definition clamp_harmonics :: "int \<Rightarrow> real \<Rightarrow> real \<Rightarrow> error + int" where
  "clamp_harmonics num_harmonics samplerate frequency =
     (case py_div (samplerate / 2) frequency of
        Inl e \<Rightarrow> Inl e
      | Inr r \<Rightarrow> Inr (min num_harmonics (py_int r)))"

primcorec Harmonics_loop ::
  "real \<Rightarrow> int \<Rightarrow> real \<Rightarrow> real \<Rightarrow> bool \<Rightarrow> bool \<Rightarrow> real \<Rightarrow> real \<Rightarrow> real \<Rightarrow> real \<Rightarrow> real
     \<Rightarrow> real stream \<Rightarrow> real gen" where
  "Harmonics_loop frequency num_harmonics amplitude bias only_even only_odd samplerate
       increment phase_correction freq_previous t fm =
     (case clamp_harmonics num_harmonics samplerate frequency of
        Inl e \<Rightarrow> Raise e
      | Inr n \<Rightarrow>
          (let freq = frequency * (1 + shd fm);
               phase_correction' = phase_correction + (freq_previous - freq) * t;
               q = t * freq + phase_correction';
               h = foldl (+) 0 (harmonic_terms q n only_even only_odd)
           in Yield (h * amplitude + bias)
                (Harmonics_loop frequency num_harmonics amplitude bias only_even only_odd
                   samplerate increment phase_correction' freq (t + increment) (stl fm))))"

definition Harmonics ::
  "real \<Rightarrow> int \<Rightarrow> real \<Rightarrow> real \<Rightarrow> real \<Rightarrow> bool \<Rightarrow> bool \<Rightarrow> real stream option \<Rightarrow> real
     \<Rightarrow> real gen" where
  "Harmonics frequency num_harmonics amplitude phase bias only_even only_odd fm_lfo samplerate =
     (case py_div (2 * pi) samplerate of
        Inl e \<Rightarrow> Raise e
      | Inr increment \<Rightarrow>
          Harmonics_loop frequency num_harmonics amplitude bias only_even only_odd samplerate
            increment (phase * 2 * pi) frequency 0 (fm_iter fm_lfo))"

definition SquareH ::
  "real \<Rightarrow> int \<Rightarrow> real \<Rightarrow> real \<Rightarrow> real \<Rightarrow> real stream option \<Rightarrow> real \<Rightarrow> real gen" where
  "SquareH frequency num_harmonics amplitude phase bias fm_lfo samplerate =
     Harmonics frequency num_harmonics amplitude phase bias False True fm_lfo samplerate"

definition SawtoothH ::
  "real \<Rightarrow> int \<Rightarrow> real \<Rightarrow> real \<Rightarrow> real \<Rightarrow> real stream option \<Rightarrow> real \<Rightarrow> real gen" where
  "SawtoothH frequency num_harmonics amplitude phase bias fm_lfo samplerate =
     map_gen (\<lambda>y. bias * 2 - y)
       (Harmonics frequency num_harmonics amplitude (phase + 0.5) bias False False fm_lfo
          samplerate)"

subsection \<open>White noise and the linear ramp\<close>

text \<open>
  The module-level random generator is a stream of the values of
  \<^verbatim>\<open>random.random()\<close>, each in \<open>[0, 1)\<close>;
  \<^verbatim>\<open>random.uniform(a, b)\<close> is \<open>a + (b - a) * random()\<close>.
\<close>

primcorec WhiteNoise_loop :: "real \<Rightarrow> real \<Rightarrow> real stream \<Rightarrow> real gen" where
  "WhiteNoise_loop amplitude bias rng =
     Yield ((- amplitude + (amplitude - (- amplitude)) * shd rng) + bias)
       (WhiteNoise_loop amplitude bias (stl rng))"

definition WhiteNoise :: "real stream \<Rightarrow> real \<Rightarrow> real \<Rightarrow> real \<Rightarrow> real gen" where
  "WhiteNoise rng amplitude bias samplerate = WhiteNoise_loop amplitude bias rng"

primcorec Linear_loop :: "real \<Rightarrow> real \<Rightarrow> real \<Rightarrow> real \<Rightarrow> real gen" where
  "Linear_loop increment min_value max_value val =
     Yield val
       (Linear_loop increment min_value max_value
          (if increment \<noteq> 0 then min max_value (max min_value (val + increment)) else val))"

definition Linear :: "real \<Rightarrow> real \<Rightarrow> real \<Rightarrow> real \<Rightarrow> real \<Rightarrow> real gen" where
  "Linear startlevel increment min_value max_value samplerate =
     Linear_loop increment min_value max_value startlevel"

section \<open>Oscillator objects and iterators\<close>

text \<open>
  An oscillator object has a sample rate and, through \<^verbatim>\<open>__iter__\<close>, a generator.
  It is iterable but no iterator: the class has no \<^verbatim>\<open>__next__\<close>.
\<close>

record oscillator =
  osc_samplerate :: real
  osc_generator :: "real gen"

text \<open>What a wrapper function may be handed: an oscillator object or an iterator.\<close>

datatype source = Oscillator oscillator | Iterator "real gen"

text \<open>\<^verbatim>\<open>next(x)\<close>; an exception of the iterator passes through, its end is
  \<^verbatim>\<open>StopIteration\<close>.\<close>

fun py_next :: "source \<Rightarrow> error + real \<times> source" where
  "py_next (Oscillator obj) = Inl TypeError"
| "py_next (Iterator g) =
     (case g of
        Yield v g' \<Rightarrow> Inr (v, Iterator g')
      | Return \<Rightarrow> Inl StopIteration
      | Raise e \<Rightarrow> Inl e)"

text \<open>\<^verbatim>\<open>iter(x)\<close>, as \<^verbatim>\<open>for v in x\<close> and \<^verbatim>\<open>yield from x\<close> call it.\<close>

fun py_iter :: "source \<Rightarrow> real gen" where
  "py_iter (Oscillator obj) = osc_generator obj"
| "py_iter (Iterator g) = g"

section \<open>The synthesis facade\<close>

record WaveSynth =
  synth_samplerate :: real
  synth_samplewidth :: int

definition WaveSynth_init :: "real \<Rightarrow> int \<Rightarrow> error + WaveSynth" where
  "WaveSynth_init samplerate samplewidth =
     (if samplewidth \<noteq> 2 \<and> samplewidth \<noteq> 4 then Inl ValueError
      else Inr \<lparr>synth_samplerate = samplerate, synth_samplewidth = samplewidth\<rparr>)"

definition check_and_get_scale :: "WaveSynth \<Rightarrow> real \<Rightarrow> real \<Rightarrow> real \<Rightarrow> error + real" where
  "check_and_get_scale self freq amplitude bias =
     (if \<not> freq \<le> synth_samplerate self / 2 then Inl AssertionError
      else if \<not> (0 \<le> amplitude \<and> amplitude \<le> 1) then Inl AssertionError
      else if \<not> (- 1 \<le> bias \<and> bias \<le> 1) then Inl AssertionError
      else Inr (2 powr of_int (synth_samplewidth self * 8 - 1) - 1))"

text \<open>
  \<^verbatim>\<open>__render_sample\<close>: the loop appends \<open>int(next(wave))\<close> once per round.  The
  sample container is the list of the appended integers.
\<close>

fun render_loop :: "nat \<Rightarrow> real gen \<Rightarrow> int list \<Rightarrow> error + int list" where
  "render_loop 0 wave samples = Inr samples"
| "render_loop (Suc n) wave samples =
     (case wave of
        Yield v wave' \<Rightarrow> render_loop n wave' (samples @ [py_int v])
      | Return \<Rightarrow> Inl StopIteration
      | Raise e \<Rightarrow> Inl e)"

definition render_sample :: "WaveSynth \<Rightarrow> real \<Rightarrow> real gen \<Rightarrow> error + int list" where
  "render_sample self duration wave =
     render_loop (nat (py_int (duration * synth_samplerate self))) wave []"

text \<open>Running a construction that may raise, then rendering its oscillator.\<close>

definition render_of :: "WaveSynth \<Rightarrow> real \<Rightarrow> error + real gen \<Rightarrow> error + int list" where
  "render_of self duration made =
     (case made of Inl e \<Rightarrow> Inl e | Inr wave \<Rightarrow> render_sample self duration wave)"

subsection \<open>Choosing the oscillator (the private methods)\<close>

definition wave_sine ::
  "WaveSynth \<Rightarrow> real \<Rightarrow> real \<Rightarrow> real \<Rightarrow> real \<Rightarrow> real stream option \<Rightarrow> error + real gen" where
  "wave_sine self frequency amplitude phase bias fm_lfo =
     (case check_and_get_scale self frequency amplitude bias of
        Inl e \<Rightarrow> Inl e
      | Inr scale \<Rightarrow>
          Inr (case fm_lfo of
                 Some lfo \<Rightarrow> Sine frequency (amplitude * scale) phase (bias * scale) fm_lfo
                               (synth_samplerate self)
               | None \<Rightarrow> FastSine frequency (amplitude * scale) phase (bias * scale)
                               (synth_samplerate self)))"

definition wave_square ::
  "WaveSynth \<Rightarrow> real \<Rightarrow> real \<Rightarrow> real \<Rightarrow> real \<Rightarrow> real stream option \<Rightarrow> error + real gen" where
  "wave_square self frequency amplitude phase bias fm_lfo =
     (case check_and_get_scale self frequency amplitude bias of
        Inl e \<Rightarrow> Inl e
      | Inr scale \<Rightarrow>
          Inr (case fm_lfo of
                 Some lfo \<Rightarrow> Square frequency (amplitude * scale) phase (bias * scale) fm_lfo
                               (synth_samplerate self)
               | None \<Rightarrow> FastSquare frequency (amplitude * scale) phase (bias * scale)
                               (synth_samplerate self)))"

definition wave_square_h ::
  "WaveSynth \<Rightarrow> real \<Rightarrow> int \<Rightarrow> real \<Rightarrow> real \<Rightarrow> real \<Rightarrow> real stream option
     \<Rightarrow> error + real gen" where
  "wave_square_h self frequency num_harmonics amplitude phase bias fm_lfo =
     (case check_and_get_scale self frequency amplitude bias of
        Inl e \<Rightarrow> Inl e
      | Inr scale \<Rightarrow>
          Inr (SquareH frequency num_harmonics (amplitude * scale) phase (bias * scale) fm_lfo
                 (synth_samplerate self)))"

definition wave_triangle ::
  "WaveSynth \<Rightarrow> real \<Rightarrow> real \<Rightarrow> real \<Rightarrow> real \<Rightarrow> real stream option \<Rightarrow> error + real gen" where
  "wave_triangle self frequency amplitude phase bias fm_lfo =
     (case check_and_get_scale self frequency amplitude bias of
        Inl e \<Rightarrow> Inl e
      | Inr scale \<Rightarrow>
          Inr (case fm_lfo of
                 Some lfo \<Rightarrow> Triangle frequency (amplitude * scale) phase (bias * scale) fm_lfo
                               (synth_samplerate self)
               | None \<Rightarrow> FastTriangle frequency (amplitude * scale) phase (bias * scale)
                               (synth_samplerate self)))"

definition wave_sawtooth ::
  "WaveSynth \<Rightarrow> real \<Rightarrow> real \<Rightarrow> real \<Rightarrow> real \<Rightarrow> real stream option \<Rightarrow> error + real gen" where
  "wave_sawtooth self frequency amplitude phase bias fm_lfo =
     (case check_and_get_scale self frequency amplitude bias of
        Inl e \<Rightarrow> Inl e
      | Inr scale \<Rightarrow>
          Inr (case fm_lfo of
                 Some lfo \<Rightarrow> Sawtooth frequency (amplitude * scale) phase (bias * scale) fm_lfo
                               (synth_samplerate self)
               | None \<Rightarrow> FastSawtooth frequency (amplitude * scale) phase (bias * scale)
                               (synth_samplerate self)))"

definition wave_sawtooth_h ::
  "WaveSynth \<Rightarrow> real \<Rightarrow> int \<Rightarrow> real \<Rightarrow> real \<Rightarrow> real \<Rightarrow> real stream option
     \<Rightarrow> error + real gen" where
  "wave_sawtooth_h self frequency num_harmonics amplitude phase bias fm_lfo =
     (case check_and_get_scale self frequency amplitude bias of
        Inl e \<Rightarrow> Inl e
      | Inr scale \<Rightarrow>
          Inr (SawtoothH frequency num_harmonics (amplitude * scale) phase (bias * scale) fm_lfo
                 (synth_samplerate self)))"

definition wave_pulse ::
  "WaveSynth \<Rightarrow> real \<Rightarrow> real \<Rightarrow> real \<Rightarrow> real \<Rightarrow> real \<Rightarrow> real stream option
     \<Rightarrow> real stream option \<Rightarrow> error + real gen" where
  "wave_pulse self frequency amplitude phase bias pulsewidth fm_lfo pwm_lfo =
     (if \<not> (0 \<le> pulsewidth \<and> pulsewidth \<le> 1) then Inl AssertionError
      else case check_and_get_scale self frequency amplitude bias of
        Inl e \<Rightarrow> Inl e
      | Inr scale \<Rightarrow>
          (case fm_lfo of
             Some lfo \<Rightarrow> Pulse frequency (amplitude * scale) phase (bias * scale) pulsewidth
                           fm_lfo pwm_lfo (synth_samplerate self)
           | None \<Rightarrow> FastPulse frequency (amplitude * scale) phase (bias * scale) pulsewidth
                           pwm_lfo (synth_samplerate self)))"

definition wave_harmonics ::
  "WaveSynth \<Rightarrow> real \<Rightarrow> int \<Rightarrow> real \<Rightarrow> real \<Rightarrow> real \<Rightarrow> bool \<Rightarrow> bool \<Rightarrow> real stream option
     \<Rightarrow> error + real gen" where
  "wave_harmonics self frequency num_harmonics amplitude phase bias only_even only_odd fm_lfo =
     (case check_and_get_scale self frequency amplitude bias of
        Inl e \<Rightarrow> Inl e
      | Inr scale \<Rightarrow>
          Inr (Harmonics frequency num_harmonics (amplitude * scale) phase (bias * scale)
                 only_even only_odd fm_lfo (synth_samplerate self)))"

definition wave_white_noise ::
  "WaveSynth \<Rightarrow> real stream \<Rightarrow> real \<Rightarrow> real \<Rightarrow> error + real gen" where
  "wave_white_noise self rng amplitude bias =
     (case check_and_get_scale self 1 amplitude bias of
        Inl e \<Rightarrow> Inl e
      | Inr scale \<Rightarrow>
          Inr (WhiteNoise rng (amplitude * scale) (bias * scale) (synth_samplerate self)))"

definition wave_linear :: "WaveSynth \<Rightarrow> real \<Rightarrow> real \<Rightarrow> real \<Rightarrow> error + real gen" where
  "wave_linear self duration start_amp finish_amp =
     (let num_samples = py_int (duration * synth_samplerate self)
      in case py_div (finish_amp - start_amp) (of_int (num_samples - 1)) of
           Inl e \<Rightarrow> Inl e
         | Inr increment \<Rightarrow> Inr (Linear start_amp increment (- 1) 1 (synth_samplerate self)))"

subsection \<open>The finite renders\<close>

definition sine ::
  "WaveSynth \<Rightarrow> real \<Rightarrow> real \<Rightarrow> real \<Rightarrow> real \<Rightarrow> real \<Rightarrow> real stream option
     \<Rightarrow> error + int list" where
  "sine self frequency duration amplitude phase bias fm_lfo =
     render_of self duration (wave_sine self frequency amplitude phase bias fm_lfo)"

definition square ::
  "WaveSynth \<Rightarrow> real \<Rightarrow> real \<Rightarrow> real \<Rightarrow> real \<Rightarrow> real \<Rightarrow> real stream option
     \<Rightarrow> error + int list" where
  "square self frequency duration amplitude phase bias fm_lfo =
     render_of self duration (wave_square self frequency amplitude phase bias fm_lfo)"

definition square_h ::
  "WaveSynth \<Rightarrow> real \<Rightarrow> real \<Rightarrow> int \<Rightarrow> real \<Rightarrow> real \<Rightarrow> real \<Rightarrow> real stream option
     \<Rightarrow> error + int list" where
  "square_h self frequency duration num_harmonics amplitude phase bias fm_lfo =
     render_of self duration
       (wave_square_h self frequency num_harmonics amplitude phase bias fm_lfo)"

definition triangle ::
  "WaveSynth \<Rightarrow> real \<Rightarrow> real \<Rightarrow> real \<Rightarrow> real \<Rightarrow> real \<Rightarrow> real stream option
     \<Rightarrow> error + int list" where
  "triangle self frequency duration amplitude phase bias fm_lfo =
     render_of self duration (wave_triangle self frequency amplitude phase bias fm_lfo)"

definition sawtooth ::
  "WaveSynth \<Rightarrow> real \<Rightarrow> real \<Rightarrow> real \<Rightarrow> real \<Rightarrow> real \<Rightarrow> real stream option
     \<Rightarrow> error + int list" where
  "sawtooth self frequency duration amplitude phase bias fm_lfo =
     render_of self duration (wave_sawtooth self frequency amplitude phase bias fm_lfo)"

definition sawtooth_h ::
  "WaveSynth \<Rightarrow> real \<Rightarrow> real \<Rightarrow> int \<Rightarrow> real \<Rightarrow> real \<Rightarrow> real \<Rightarrow> real stream option
     \<Rightarrow> error + int list" where
  "sawtooth_h self frequency duration num_harmonics amplitude phase bias fm_lfo =
     render_of self duration
       (wave_sawtooth_h self frequency num_harmonics amplitude phase bias fm_lfo)"

definition pulse ::
  "WaveSynth \<Rightarrow> real \<Rightarrow> real \<Rightarrow> real \<Rightarrow> real \<Rightarrow> real \<Rightarrow> real \<Rightarrow> real stream option
     \<Rightarrow> real stream option \<Rightarrow> error + int list" where
  "pulse self frequency duration amplitude phase bias pulsewidth fm_lfo pwm_lfo =
     render_of self duration
       (wave_pulse self frequency amplitude phase bias pulsewidth fm_lfo pwm_lfo)"

definition harmonics ::
  "WaveSynth \<Rightarrow> real \<Rightarrow> real \<Rightarrow> int \<Rightarrow> real \<Rightarrow> real \<Rightarrow> real \<Rightarrow> bool \<Rightarrow> bool
     \<Rightarrow> real stream option \<Rightarrow> error + int list" where
  "harmonics self frequency duration num_harmonics amplitude phase bias only_even only_odd fm_lfo =
     render_of self duration
       (wave_harmonics self frequency num_harmonics amplitude phase bias only_even only_odd
          fm_lfo)"

definition white_noise ::
  "WaveSynth \<Rightarrow> real stream \<Rightarrow> real \<Rightarrow> real \<Rightarrow> real \<Rightarrow> error + int list" where
  "white_noise self rng duration amplitude bias =
     render_of self duration (wave_white_noise self rng amplitude bias)"

definition linear :: "WaveSynth \<Rightarrow> real \<Rightarrow> real \<Rightarrow> real \<Rightarrow> error + int list" where
  "linear self duration start_amp finish_amp =
     render_of self duration (wave_linear self duration start_amp finish_amp)"

text \<open>
  \<^verbatim>\<open>linear_gen\<close> is a generator function: its body, the construction included,
  runs at the first pull.  Its loop calls \<^verbatim>\<open>next(wave)\<close> on the oscillator object
  that \<^verbatim>\<open>__linear\<close> returned, without \<^verbatim>\<open>iter\<close>.
\<close>

primcorec linear_gen_loop :: "nat \<Rightarrow> source \<Rightarrow> int gen" where
  "linear_gen_loop n wave =
     (case n of
        0 \<Rightarrow> Return
      | Suc m \<Rightarrow>
          (case py_next wave of
             Inl e \<Rightarrow> Raise e
           | Inr p \<Rightarrow> Yield (py_int (fst p)) (linear_gen_loop m (snd p))))"

definition linear_gen :: "WaveSynth \<Rightarrow> real \<Rightarrow> real \<Rightarrow> real \<Rightarrow> int gen" where
  "linear_gen self duration startamp finishamp =
     (case wave_linear self duration startamp finishamp of
        Inl e \<Rightarrow> Raise e
      | Inr wave \<Rightarrow>
          linear_gen_loop (nat (py_int (duration * synth_samplerate self)))
            (Oscillator \<lparr>osc_samplerate = synth_samplerate self, osc_generator = wave\<rparr>))"

section \<open>Stream combinators\<close>

text \<open>
  \<^verbatim>\<open>FilteredOscillator(self, wrapper)\<close>: its generator is the wrapper applied to the
  wrapped object itself.
\<close>

definition FilteredOscillator :: "oscillator \<Rightarrow> (source \<Rightarrow> real gen) \<Rightarrow> oscillator" where
  "FilteredOscillator obj wrapper =
     \<lparr>osc_samplerate = osc_samplerate obj, osc_generator = wrapper (Oscillator obj)\<rparr>"

subsection \<open>Delay\<close>

text \<open>\<^verbatim>\<open>for _ in range(n): next(oscillator)\<close>\<close>

fun skip_loop :: "nat \<Rightarrow> source \<Rightarrow> error + source" where
  "skip_loop 0 osc = Inr osc"
| "skip_loop (Suc n) osc =
     (case py_next osc of Inl e \<Rightarrow> Inl e | Inr (v, osc') \<Rightarrow> skip_loop n osc')"

text \<open>\<^verbatim>\<open>for _ in range(n): yield 0.0\<close>, followed by the rest of the generator.\<close>

fun yield_zeros :: "nat \<Rightarrow> real gen \<Rightarrow> real gen" where
  "yield_zeros 0 rest = rest"
| "yield_zeros (Suc n) rest = Yield 0 (yield_zeros n rest)"

definition delayfunc :: "real \<Rightarrow> real \<Rightarrow> source \<Rightarrow> real gen" where
  "delayfunc samplerate seconds osc =
     (if seconds < 0 then
        (case skip_loop (nat (py_int (- samplerate * seconds))) osc of
           Inl e \<Rightarrow> Raise e
         | Inr osc' \<Rightarrow> py_iter osc')
      else yield_zeros (nat (py_int (samplerate * seconds))) (py_iter osc))"

definition delay :: "oscillator \<Rightarrow> real \<Rightarrow> oscillator" where
  "delay self seconds = FilteredOscillator self (delayfunc (osc_samplerate self) seconds)"

subsection \<open>Clip\<close>

definition clip :: "oscillator \<Rightarrow> real option \<Rightarrow> real option \<Rightarrow> error + oscillator" where
  "clip self minimum maximum =
     (if minimum = None \<and> maximum = None then Inl AssertionError
      else
        (let minimum' = (case minimum of None \<Rightarrow> float_info_min | Some m \<Rightarrow> m);
             maximum' = (case maximum of None \<Rightarrow> float_info_max | Some m \<Rightarrow> m)
         in Inr (FilteredOscillator self
                   (\<lambda>osc. map_gen (\<lambda>v. max (min v maximum') minimum') (py_iter osc)))))"

subsection \<open>Echo\<close>

record EchoingOscillator =
  echo_samplerate :: real
  echo_oscillator :: oscillator
  echo_after :: real
  echo_amount :: int
  echo_delay :: real
  echo_decay :: real

definition EchoingOscillator_init ::
  "oscillator \<Rightarrow> real \<Rightarrow> int \<Rightarrow> real \<Rightarrow> real \<Rightarrow> error + EchoingOscillator" where
  "EchoingOscillator_init osc after amount dly decay =
     (case (if decay < 1 then
              (case py_log 0.000001 decay of
                 Inl e \<Rightarrow> Inl e
               | Inr l \<Rightarrow> Inr (py_int (min (of_int amount) l)))
            else Inr amount) of
        Inl e \<Rightarrow> Inl e
      | Inr amount' \<Rightarrow>
          Inr \<lparr>echo_samplerate = osc_samplerate osc, echo_oscillator = osc, echo_after = after,
               echo_amount = amount', echo_delay = dly, echo_decay = decay\<rparr>)"

text \<open>
  The loop of \<^verbatim>\<open>EchoingOscillator.generator\<close> over the echo branches
  \<^verbatim>\<open>echo_oscs[1:]\<close>: each tap with its delay and its gain.
\<close>

fun echo_taps_loop :: "nat \<Rightarrow> real \<Rightarrow> real \<Rightarrow> real \<Rightarrow> real \<Rightarrow> (real \<times> real) list" where
  "echo_taps_loop 0 dly decay echo_dly amp = []"
| "echo_taps_loop (Suc n) dly decay echo_dly amp =
     (echo_dly, amp) # echo_taps_loop n dly decay (echo_dly + dly) (amp * decay)"

text \<open>\<^verbatim>\<open>itertools.tee(oscillator, self._amount+1)\<close> makes the branches; branch 0 is
  the source itself.\<close>

definition echo_taps :: "EchoingOscillator \<Rightarrow> error + (real \<times> real) list" where
  "echo_taps self =
     (if echo_amount self + 1 < 0 then Inl ValueError
      else if echo_amount self + 1 = 0 then Inl IndexError
      else Inr (echo_taps_loop (nat (echo_amount self)) (echo_delay self) (echo_decay self)
                  (echo_delay self) (echo_decay self)))"

subsection \<open>The ADSR envelope\<close>

text \<open>
  The wrapper generator of \<^verbatim>\<open>envelope\<close> is a state machine over its control points.
  A step either emits a value (the generator yields), moves on without emitting, ends the
  generator or raises.  A generator that moves on forever without emitting never answers
  the pull.
\<close>

record envelope_args =
  env_attack :: real
  env_decay :: real
  env_sustain :: real
  env_sustain_level :: real
  env_release :: real
  env_stop_at_end :: bool
  env_cycle :: bool
  env_samplerate :: real

datatype env_pc =
  CycleStart | AttackTest | AttackLoop | DecayTest | DecayLoop | SustainLoop
  | ReleaseTest | ReleaseLoop | ReleaseTail | CycleTest | SilenceLoop

record env_state =
  st_pc :: env_pc
  st_time :: real
  st_increment :: real
  st_amp :: real
  st_amp_change :: real
  st_osc :: "real gen"

datatype segment = Attack | Decay | Sustain | Release | Silence

datatype env_result = Emit segment real env_state | Skip env_state | Finish | Fail error

definition end_time_decay :: "envelope_args \<Rightarrow> real" where
  "end_time_decay P = env_attack P + env_decay P"

definition end_time_sustain :: "envelope_args \<Rightarrow> real" where
  "end_time_sustain P = end_time_decay P + env_sustain P"

definition end_time_release :: "envelope_args \<Rightarrow> real" where
  "end_time_release P = end_time_sustain P + env_release P"

text \<open>
  \<^verbatim>\<open>yield next(oscillator)*gain\<close>, and the statements \<open>after\<close> that follow the
  yield when the generator is resumed.
\<close>

definition yield_next ::
  "segment \<Rightarrow> real \<Rightarrow> env_state \<Rightarrow> (env_state \<Rightarrow> env_state) \<Rightarrow> env_result" where
  "yield_next seg gain s after =
     (case st_osc s of
        Yield v g' \<Rightarrow> Emit seg (v * gain) (after (s\<lparr>st_osc := g'\<rparr>))
      | Return \<Rightarrow> Fail StopIteration
      | Raise e \<Rightarrow> Fail e)"

text \<open>\<^verbatim>\<open>amp += amp_change; time += increment\<close>\<close>

definition ramp_on :: "env_state \<Rightarrow> env_state" where
  "ramp_on s = s\<lparr>st_amp := st_amp s + st_amp_change s, st_time := st_time s + st_increment s\<rparr>"

definition env_step :: "envelope_args \<Rightarrow> env_state \<Rightarrow> env_result" where
  "env_step P s =
     (case st_pc s of
        CycleStart \<Rightarrow>
          (case py_div 1 (env_samplerate P) of
             Inl e \<Rightarrow> Fail e
           | Inr increment \<Rightarrow>
               Skip (s\<lparr>st_time := 0, st_increment := increment, st_pc := AttackTest\<rparr>))
      | AttackTest \<Rightarrow>
          (if env_attack P \<noteq> 0 then
             (case py_div 1 (env_attack P) of
                Inl e \<Rightarrow> Fail e
              | Inr r \<Rightarrow>
                  Skip (s\<lparr>st_amp_change := r * st_increment s, st_amp := 0,
                          st_pc := AttackLoop\<rparr>))
           else Skip (s\<lparr>st_pc := DecayTest\<rparr>))
      | AttackLoop \<Rightarrow>
          (if st_time s < env_attack P then yield_next Attack (st_amp s) s ramp_on
           else Skip (s\<lparr>st_pc := DecayTest\<rparr>))
      | DecayTest \<Rightarrow>
          (if env_decay P \<noteq> 0 then
             (case py_div (env_sustain_level P - 1) (env_decay P) of
                Inl e \<Rightarrow> Fail e
              | Inr r \<Rightarrow>
                  Skip (s\<lparr>st_amp := 1, st_amp_change := r * st_increment s,
                          st_pc := DecayLoop\<rparr>))
           else Skip (s\<lparr>st_pc := SustainLoop\<rparr>))
      | DecayLoop \<Rightarrow>
          (if st_time s < end_time_decay P then yield_next Decay (st_amp s) s ramp_on
           else Skip (s\<lparr>st_pc := SustainLoop\<rparr>))
      | SustainLoop \<Rightarrow>
          (if st_time s < end_time_sustain P then
             yield_next Sustain (env_sustain_level P) s
               (\<lambda>s'. s'\<lparr>st_time := st_time s' + st_increment s'\<rparr>)
           else Skip (s\<lparr>st_pc := ReleaseTest\<rparr>))
      | ReleaseTest \<Rightarrow>
          (if env_release P \<noteq> 0 then
             (case py_div (- env_sustain_level P) (env_release P) of
                Inl e \<Rightarrow> Fail e
              | Inr r \<Rightarrow>
                  Skip (s\<lparr>st_amp := env_sustain_level P, st_amp_change := r * st_increment s,
                          st_pc := ReleaseLoop\<rparr>))
           else Skip (s\<lparr>st_pc := CycleTest\<rparr>))
      | ReleaseLoop \<Rightarrow>
          (if st_time s < end_time_release P then yield_next Release (st_amp s) s ramp_on
           else Skip (s\<lparr>st_pc := ReleaseTail\<rparr>))
      | ReleaseTail \<Rightarrow>
          (if st_amp s > 0 then
             yield_next Release (st_amp s) s (\<lambda>s'. s'\<lparr>st_pc := CycleTest\<rparr>)
           else Skip (s\<lparr>st_pc := CycleTest\<rparr>))
      | CycleTest \<Rightarrow>
          (if \<not> env_cycle P then
             (if \<not> env_stop_at_end P then Skip (s\<lparr>st_pc := SilenceLoop\<rparr>) else Finish)
           else Skip (s\<lparr>st_pc := CycleStart\<rparr>))
      | SilenceLoop \<Rightarrow> Emit Silence 0 s)"

text \<open>The generator before its first pull, on the iterator \<open>g\<close> of the wrapped oscillator.\<close>

definition env_start :: "real gen \<Rightarrow> env_state" where
  "env_start g =
     \<lparr>st_pc = CycleStart, st_time = 0, st_increment = 0, st_amp = 0, st_amp_change = 0,
      st_osc = g\<rparr>"



text \<open>The values emitted in the first \<open>n\<close> steps, each with its segment.\<close>

fun env_run :: "nat \<Rightarrow> envelope_args \<Rightarrow> env_state \<Rightarrow> (segment \<times> real) list" where
  "env_run 0 P s = []"
| "env_run (Suc n) P s =
     (case env_step P s of
        Emit seg v s' \<Rightarrow> (seg, v) # env_run n P s'
      | Skip s' \<Rightarrow> env_run n P s'
      | Finish \<Rightarrow> []
      | Fail e \<Rightarrow> [])"





section \<open>The frequency helper: piano keys\<close>

lemma two_powr_minus_three_quarters:
  "261625 / 440000 < (2::real) powr (- 3 / 4) \<and> (2::real) powr (- 3 / 4) < 261627 / 440000"
proof -
  define x :: real where "x = 2 powr (- 3 / 4)"
  have xpos: "0 < x" by (simp add: x_def)
  have "x ^ 4 = x powr 4" using powr_realpow [OF xpos, of 4] by simp
  also have "\<dots> = 2 powr (- 3)" unfolding x_def by (simp add: powr_powr)
  also have "\<dots> = 1 / 8" by (simp add: powr_minus_divide)
  finally have x4: "x ^ 4 = 1 / 8" .
  have lo: "(261625 / 440000 :: real) ^ 4 < x ^ 4" unfolding x4 by (simp add: power_divide)
  have hi: "x ^ 4 < (261627 / 440000 :: real) ^ 4" unfolding x4 by (simp add: power_divide)
  have l: "261625 / 440000 < x" using lo xpos by (rule_tac power_less_imp_less_base) auto
  have h: "x < 261627 / 440000" using hi by (rule_tac power_less_imp_less_base) auto
  show ?thesis using l h unfolding x_def by blast
qed

lemma near_middle:
  "261625 / 1000 < (y::real) \<Longrightarrow> y < 261627 / 1000 \<Longrightarrow> \<bar>y - 261.626\<bar> < 1 / 1000"
  unfolding abs_less_iff by simp

text \<open>
  Claim C9.  For every key number and reference frequency the helper returns
  \<open>2^((k-49)/12) * a4\<close>; with the default reference, key 49 gives 440 exactly and key 40
  is within \<open>1e-3\<close> of 261.626.
\<close>

theorem key_freq_equal_tempered:
  "key_freq k a4 = 2 powr ((of_int k - 49) / 12) * a4
   \<and> key_freq_default 49 = 440
   \<and> \<bar>key_freq_default 40 - 261.626\<bar> < 1 / 1000"
proof -
  have a: "key_freq k a4 = 2 powr ((of_int k - 49) / 12) * a4"
    by (simp add: key_freq_def)
  have b: "key_freq_default 49 = 440"
    by (simp add: key_freq_default_def key_freq_def)
  have c40: "key_freq_default 40 = 2 powr (- 3 / 4) * 440"
    by (simp add: key_freq_default_def key_freq_def)
  have lo: "261625 / 1000 < (2::real) powr (- 3 / 4) * 440"
    using two_powr_minus_three_quarters by simp
  have hi: "(2::real) powr (- 3 / 4) * 440 < 261627 / 1000"
    using two_powr_minus_three_quarters by simp
  have c: "\<bar>key_freq_default 40 - 261.626\<bar> < 1 / 1000"
    unfolding c40 by (rule near_middle [OF lo hi])
  from a b c show ?thesis by blast
qed

section \<open>The linear ramp of one sample\<close>

lemma py_int_of_int: "py_int (of_int k) = k"
  by (simp add: py_int_def)

lemma nat_py_int: "nat (py_int x) = nat \<lfloor>x\<rfloor>"
proof (cases "0 \<le> x")
  case True
  then show ?thesis by (simp add: py_int_def)
next
  case False
  then have "\<lceil>x\<rceil> \<le> 0" "\<lfloor>x\<rfloor> \<le> 0" by (simp_all add: ceiling_le_iff floor_le_iff)
  with False show ?thesis by (simp add: py_int_def)
qed

text \<open>
  Claim C10.  When \<open>int(duration * samplerate)\<close> is 1, \<^verbatim>\<open>linear\<close> and
  \<^verbatim>\<open>linear_gen\<close> fail with a division by zero before any sample is produced: the
  increment divides by \<open>num_samples - 1\<close>.
\<close>

theorem linear_single_sample_raises:
  "py_int (duration * synth_samplerate self) = 1 \<Longrightarrow>
     linear self duration start_amp finish_amp = Inl ZeroDivisionError
     \<and> linear_gen self duration start_amp finish_amp = Raise ZeroDivisionError"
  by (simp add: linear_def linear_gen_def render_of_def wave_linear_def py_div_def)

theorem linear_single_sample_raises_witness:
  "py_int (1 * synth_samplerate \<lparr>synth_samplerate = 1, synth_samplewidth = 2\<rparr>) = 1
   \<and> linear \<lparr>synth_samplerate = 1, synth_samplewidth = 2\<rparr> 1 0 1 = Inl ZeroDivisionError
   \<and> linear_gen \<lparr>synth_samplerate = 1, synth_samplewidth = 2\<rparr> 1 0 1
       = Raise ZeroDivisionError"
  using linear_single_sample_raises [of 1 "\<lparr>synth_samplerate = 1, synth_samplewidth = 2\<rparr>" 0 1]
  by (simp add: py_int_def)

text \<open>
  Past the division, \<^verbatim>\<open>linear_gen\<close> does not get further than its first pull: the
  object it holds is no iterator.
\<close>

lemma linear_gen_next_on_object:
  "2 \<le> py_int (duration * synth_samplerate self) \<Longrightarrow>
   linear_gen self duration startamp finishamp = Raise TypeError"
proof -
  assume a: "2 \<le> py_int (duration * synth_samplerate self)"
  then obtain m where m: "nat (py_int (duration * synth_samplerate self)) = Suc m"
    by (cases "nat (py_int (duration * synth_samplerate self))") auto
  from a have "py_int (duration * synth_samplerate self) - 1 \<noteq> 0" by simp
  then show ?thesis
    by (simp add: linear_gen_def wave_linear_def py_div_def m Let_def linear_gen_loop.code)
qed


section \<open>The perfect square wave\<close>

lemma FastSquare_loop_levels:
  "render_loop n (FastSquare_loop f A B inc t) acc = Inr samples \<Longrightarrow>
   set samples \<subseteq> set acc \<union> {py_int (A + B), py_int (- A + B)}"
proof (induction n arbitrary: t acc)
  case 0
  then show ?case by auto
next
  case (Suc n)
  from Suc.prems have
    "render_loop n (FastSquare_loop f A B inc (t + inc))
       (acc @ [py_int ((if py_int (t * f * 2) mod 2 \<noteq> 0 then - A else A) + B)]) = Inr samples"
    by (subst (asm) FastSquare_loop.code) simp
  from Suc.IH [OF this] show ?case by (auto split: if_splits)
qed

text \<open>
  Claim C8.  Every sample of a perfect square wave rendered through the facade without
  frequency modulation is the truncation of the scaled \<open>+amplitude+bias\<close> or of the scaled
  \<open>-amplitude+bias\<close>, with the scale \<open>2^(8*width-1) - 1\<close> of the facade.
\<close>

theorem square_two_levels:
  assumes "square self frequency duration amplitude phase bias None = Inr samples"
    and "x \<in> set samples"
  shows "x = py_int (amplitude * (2 powr of_int (synth_samplewidth self * 8 - 1) - 1)
                      + bias * (2 powr of_int (synth_samplewidth self * 8 - 1) - 1))
       \<or> x = py_int (- (amplitude * (2 powr of_int (synth_samplewidth self * 8 - 1) - 1))
                      + bias * (2 powr of_int (synth_samplewidth self * 8 - 1) - 1))"
proof -
  define scale where "scale = 2 powr of_int (synth_samplewidth self * 8 - 1) - (1::real)"
  from assms(1) obtain wave where
    w: "wave_square self frequency amplitude phase bias None = Inr wave"
    and r: "render_sample self duration wave = Inr samples"
    by (auto simp: square_def render_of_def split: sum.splits)
  from w have wave:
    "wave = FastSquare frequency (amplitude * scale) phase (bias * scale) (synth_samplerate self)"
    by (auto simp: wave_square_def check_and_get_scale_def scale_def split: sum.splits if_splits)
  show ?thesis
  proof (cases "frequency = 0 \<or> synth_samplerate self = 0")
    case True
    with r wave have "samples = []"
      by (cases "nat (py_int (duration * synth_samplerate self))")
        (auto simp: render_sample_def FastSquare_def py_div_def split: if_splits)
    with assms(2) show ?thesis by simp
  next
    case False
    with r wave have
      "render_loop (nat (py_int (duration * synth_samplerate self)))
         (FastSquare_loop frequency (amplitude * scale) (bias * scale)
            (1 / synth_samplerate self) (phase / frequency)) [] = Inr samples"
      by (simp add: render_sample_def FastSquare_def py_div_def)
    from FastSquare_loop_levels [OF this] assms(2) show ?thesis
      unfolding scale_def by auto
  qed
qed

lemma square_one_period:
  "square \<lparr>synth_samplerate = 4, synth_samplewidth = 2\<rparr> 1 1 (1 / 2) 0 0 None
     = Inr [16383, 16383, - 16383, - 16383]"
  apply (simp add: square_def render_of_def wave_square_def check_and_get_scale_def
      render_sample_def FastSquare_def py_div_def py_int_def eval_nat_numeral)
  apply (subst FastSquare_loop.code, simp add: py_int_def)
  apply (subst FastSquare_loop.code, simp add: py_int_def)
  apply (subst FastSquare_loop.code, simp add: py_int_def)
  apply (subst FastSquare_loop.code, simp add: py_int_def)
  done

theorem square_two_levels_witness:
  "square \<lparr>synth_samplerate = 4, synth_samplewidth = 2\<rparr> 1 1 (1 / 2) 0 0 None
     = Inr [16383, 16383, - 16383, - 16383]
   \<and> (- 16383 = py_int (1 / 2 * 32767 + 0 * 32767)
        \<or> - 16383 = py_int (- (1 / 2 * 32767) + 0 * 32767))"
  using square_two_levels [OF square_one_period, of "- 16383"] square_one_period
  by simp

section \<open>Rendering a finite duration\<close>

text \<open>
  Every primitive oscillator yields for ever once its generator has started, so a render
  of any length finds its samples.
\<close>

lemma Sine_loop_endless: "length (gtake n (Sine_loop frequency amplitude bias increment phase_correction freq_previous t fm)) = n"
proof (induction n arbitrary: phase_correction freq_previous t fm)
  case 0
  show ?case by simp
next
  case (Suc n)
  show ?case by (subst Sine_loop.code) (simp add: Let_def Suc.IH)
qed

lemma FastSine_loop_endless: "length (gtake n (FastSine_loop amplitude bias increment t)) = n"
proof (induction n arbitrary: t)
  case 0
  show ?case by simp
next
  case (Suc n)
  show ?case by (subst FastSine_loop.code) (simp add: Let_def Suc.IH)
qed

lemma Triangle_loop_endless: "length (gtake n (Triangle_loop frequency amplitude bias increment phase_correction freq_previous t fm)) = n"
proof (induction n arbitrary: phase_correction freq_previous t fm)
  case 0
  show ?case by simp
next
  case (Suc n)
  show ?case by (subst Triangle_loop.code) (simp add: Let_def Suc.IH)
qed

lemma FastTriangle_loop_endless: "length (gtake n (FastTriangle_loop freq amplitude bias increment t)) = n"
proof (induction n arbitrary: t)
  case 0
  show ?case by simp
next
  case (Suc n)
  show ?case by (subst FastTriangle_loop.code) (simp add: Let_def Suc.IH)
qed

lemma Square_loop_endless: "length (gtake n (Square_loop frequency amplitude bias increment phase_correction freq_previous t fm)) = n"
proof (induction n arbitrary: phase_correction freq_previous t fm)
  case 0
  show ?case by simp
next
  case (Suc n)
  show ?case by (subst Square_loop.code) (simp add: Let_def Suc.IH)
qed

lemma FastSquare_loop_endless: "length (gtake n (FastSquare_loop freq amplitude bias increment t)) = n"
proof (induction n arbitrary: t)
  case 0
  show ?case by simp
next
  case (Suc n)
  show ?case by (subst FastSquare_loop.code) (simp add: Let_def Suc.IH)
qed

lemma Sawtooth_loop_endless: "length (gtake n (Sawtooth_loop frequency amplitude bias increment phase_correction freq_previous t fm)) = n"
proof (induction n arbitrary: phase_correction freq_previous t fm)
  case 0
  show ?case by simp
next
  case (Suc n)
  show ?case by (subst Sawtooth_loop.code) (simp add: Let_def Suc.IH)
qed

lemma FastSawtooth_loop_endless: "length (gtake n (FastSawtooth_loop freq amplitude bias increment t)) = n"
proof (induction n arbitrary: t)
  case 0
  show ?case by simp
next
  case (Suc n)
  show ?case by (subst FastSawtooth_loop.code) (simp add: Let_def Suc.IH)
qed

lemma Pulse_loop_endless: "length (gtake n (Pulse_loop frequency amplitude bias increment phase_correction freq_previous t fm pwm)) = n"
proof (induction n arbitrary: phase_correction freq_previous t fm pwm)
  case 0
  show ?case by simp
next
  case (Suc n)
  show ?case by (subst Pulse_loop.code) (simp add: Let_def Suc.IH)
qed

lemma FastPulse_pwm_loop_endless: "length (gtake n (FastPulse_pwm_loop freq amplitude bias increment t pwm)) = n"
proof (induction n arbitrary: t pwm)
  case 0
  show ?case by simp
next
  case (Suc n)
  show ?case by (subst FastPulse_pwm_loop.code) (simp add: Let_def Suc.IH)
qed

lemma FastPulse_fixed_loop_endless: "length (gtake n (FastPulse_fixed_loop freq amplitude bias increment pw t)) = n"
proof (induction n arbitrary: t)
  case 0
  show ?case by simp
next
  case (Suc n)
  show ?case by (subst FastPulse_fixed_loop.code) (simp add: Let_def Suc.IH)
qed

lemma WhiteNoise_loop_endless: "length (gtake n (WhiteNoise_loop amplitude bias rng)) = n"
proof (induction n arbitrary: rng)
  case 0
  show ?case by simp
next
  case (Suc n)
  show ?case by (subst WhiteNoise_loop.code) (simp add: Let_def Suc.IH)
qed

lemma Linear_loop_endless: "length (gtake n (Linear_loop increment min_value max_value val)) = n"
proof (induction n arbitrary: val)
  case 0
  show ?case by simp
next
  case (Suc n)
  show ?case by (subst Linear_loop.code) (simp add: Let_def Suc.IH)
qed

lemma Harmonics_loop_endless:
  "frequency \<noteq> 0 \<Longrightarrow>
   length (gtake n (Harmonics_loop frequency num_harmonics amplitude bias only_even only_odd
                      samplerate increment phase_correction freq_previous t fm)) = n"
proof (induction n arbitrary: phase_correction freq_previous t fm)
  case 0
  show ?case by simp
next
  case (Suc n)
  show ?case
    by (subst Harmonics_loop.code)
      (simp add: Let_def Suc.IH Suc.prems clamp_harmonics_def py_div_def)
qed

lemma gtake_map_gen: "gtake n (map_gen f g) = map f (gtake n g)"
proof (induction n arbitrary: g)
  case 0
  show ?case by simp
next
  case (Suc n)
  show ?case by (cases g) (simp_all add: Suc.IH)
qed

text \<open>The render appends the truncation of each pulled value, in order.\<close>

lemma render_loop_endless:
  "length (gtake n wave) = n \<Longrightarrow>
   render_loop n wave samples = Inr (samples @ map py_int (gtake n wave))"
proof (induction n arbitrary: wave samples)
  case 0
  show ?case by simp
next
  case (Suc n)
  then show ?case by (cases wave) simp_all
qed

lemma render_of_endless:
  assumes "made = Inr wave"
    and "length (gtake (nat \<lfloor>duration * synth_samplerate self\<rfloor>) wave)
           = nat \<lfloor>duration * synth_samplerate self\<rfloor>"
  shows "render_of self duration made
           = Inr (map py_int (gtake (nat \<lfloor>duration * synth_samplerate self\<rfloor>) wave))"
  using render_loop_endless [OF assms(2), of "[]"] assms(1)
  by (simp add: render_of_def render_sample_def nat_py_int)

lemma check_and_get_scale_valid:
  "freq \<le> synth_samplerate self / 2 \<Longrightarrow> 0 \<le> amplitude \<Longrightarrow> amplitude \<le> 1 \<Longrightarrow>
   - 1 \<le> bias \<Longrightarrow> bias \<le> 1 \<Longrightarrow>
   check_and_get_scale self freq amplitude bias
     = Inr (2 powr of_int (synth_samplewidth self * 8 - 1) - 1)"
  by (simp add: check_and_get_scale_def)


lemma renders_endless:
  assumes "made = Inr wave" and "\<And>n. length (gtake n wave) = n"
  shows "\<exists>wave. made = Inr wave
           \<and> render_of self duration made
               = Inr (map py_int (gtake (nat \<lfloor>duration * synth_samplerate self\<rfloor>) wave))
           \<and> length (gtake (nat \<lfloor>duration * synth_samplerate self\<rfloor>) wave)
               = nat \<lfloor>duration * synth_samplerate self\<rfloor>"
  using render_of_endless [OF assms(1) assms(2)] assms by blast

lemma Sine_endless:
  "samplerate \<noteq> 0 \<Longrightarrow> length (gtake n (Sine frequency amplitude phase bias fm_lfo samplerate)) = n"
  by (simp add: Sine_def py_div_def Sine_loop_endless)

lemma FastSine_endless:
  "samplerate \<noteq> 0 \<Longrightarrow> frequency \<noteq> 0 \<Longrightarrow>
   length (gtake n (FastSine frequency amplitude phase bias samplerate)) = n"
  by (simp add: FastSine_def py_div_def FastSine_loop_endless)

lemma Triangle_endless:
  "samplerate \<noteq> 0 \<Longrightarrow>
   length (gtake n (Triangle frequency amplitude phase bias fm_lfo samplerate)) = n"
  by (simp add: Triangle_def py_div_def Triangle_loop_endless)

lemma FastTriangle_endless:
  "samplerate \<noteq> 0 \<Longrightarrow> frequency \<noteq> 0 \<Longrightarrow>
   length (gtake n (FastTriangle frequency amplitude phase bias samplerate)) = n"
  by (simp add: FastTriangle_def py_div_def FastTriangle_loop_endless)

lemma Square_endless:
  "samplerate \<noteq> 0 \<Longrightarrow>
   length (gtake n (Square frequency amplitude phase bias fm_lfo samplerate)) = n"
  by (simp add: Square_def py_div_def Square_loop_endless)

lemma FastSquare_endless:
  "samplerate \<noteq> 0 \<Longrightarrow> frequency \<noteq> 0 \<Longrightarrow>
   length (gtake n (FastSquare frequency amplitude phase bias samplerate)) = n"
  by (simp add: FastSquare_def py_div_def FastSquare_loop_endless)

lemma Sawtooth_endless:
  "samplerate \<noteq> 0 \<Longrightarrow>
   length (gtake n (Sawtooth frequency amplitude phase bias fm_lfo samplerate)) = n"
  by (simp add: Sawtooth_def py_div_def Sawtooth_loop_endless)

lemma FastSawtooth_endless:
  "samplerate \<noteq> 0 \<Longrightarrow> frequency \<noteq> 0 \<Longrightarrow>
   length (gtake n (FastSawtooth frequency amplitude phase bias samplerate)) = n"
  by (simp add: FastSawtooth_def py_div_def FastSawtooth_loop_endless)

lemma Harmonics_endless:
  "samplerate \<noteq> 0 \<Longrightarrow> frequency \<noteq> 0 \<Longrightarrow>
   length (gtake n (Harmonics frequency num_harmonics amplitude phase bias only_even only_odd
                      fm_lfo samplerate)) = n"
  by (simp add: Harmonics_def py_div_def Harmonics_loop_endless)

lemma Pulse_endless:
  "samplerate \<noteq> 0 \<Longrightarrow> 0 \<le> pulsewidth \<Longrightarrow> pulsewidth \<le> 1 \<Longrightarrow>
   \<exists>wave. Pulse frequency amplitude phase bias pulsewidth fm_lfo pwm_lfo samplerate = Inr wave
     \<and> (\<forall>n. length (gtake n wave) = n)"
  by (simp add: Pulse_def py_div_def Pulse_loop_endless)

lemma FastPulse_endless:
  "samplerate \<noteq> 0 \<Longrightarrow> frequency \<noteq> 0 \<Longrightarrow> 0 \<le> pulsewidth \<Longrightarrow> pulsewidth \<le> 1 \<Longrightarrow>
   \<exists>wave. FastPulse frequency amplitude phase bias pulsewidth pwm_lfo samplerate = Inr wave
     \<and> (\<forall>n. length (gtake n wave) = n)"
  by (cases pwm_lfo)
    (simp_all add: FastPulse_def py_div_def FastPulse_pwm_loop_endless
      FastPulse_fixed_loop_endless)

text \<open>
  With arguments that pass the checks of the facade, and a positive frequency, each render
  returns \<open>\<lfloor>duration * samplerate\<rfloor>\<close> samples, the truncations of the first pulls of
  the oscillator it chose.  For \<^verbatim>\<open>linear\<close> this needs a sample count other than 1.
\<close>

lemma sine_renders:
  assumes "0 < frequency" and "frequency \<le> synth_samplerate self / 2"
    and "0 \<le> amplitude" and "amplitude \<le> 1" and "- 1 \<le> bias" and "bias \<le> 1"
  shows "\<exists>wave. wave_sine self frequency amplitude phase bias fm_lfo = Inr wave
           \<and> sine self frequency duration amplitude phase bias fm_lfo
               = Inr (map py_int (gtake (nat \<lfloor>duration * synth_samplerate self\<rfloor>) wave))
           \<and> length (gtake (nat \<lfloor>duration * synth_samplerate self\<rfloor>) wave) = nat \<lfloor>duration * synth_samplerate self\<rfloor>"
proof -
  from assms have sr: "synth_samplerate self \<noteq> 0" and fr: "frequency \<noteq> 0" by auto
  have "\<exists>wave. wave_sine self frequency amplitude phase bias fm_lfo = Inr wave \<and> (\<forall>n. length (gtake n wave) = n)"
    using assms sr fr
    by (cases fm_lfo) (simp_all add: wave_sine_def check_and_get_scale_valid Sine_endless FastSine_endless)
  then obtain wave where w: "wave_sine self frequency amplitude phase bias fm_lfo = Inr wave"
    and e: "\<And>n. length (gtake n wave) = n" by blast
  from renders_endless [OF w e, of self duration] show ?thesis
    unfolding sine_def .
qed

lemma square_renders:
  assumes "0 < frequency" and "frequency \<le> synth_samplerate self / 2"
    and "0 \<le> amplitude" and "amplitude \<le> 1" and "- 1 \<le> bias" and "bias \<le> 1"
  shows "\<exists>wave. wave_square self frequency amplitude phase bias fm_lfo = Inr wave
           \<and> square self frequency duration amplitude phase bias fm_lfo
               = Inr (map py_int (gtake (nat \<lfloor>duration * synth_samplerate self\<rfloor>) wave))
           \<and> length (gtake (nat \<lfloor>duration * synth_samplerate self\<rfloor>) wave) = nat \<lfloor>duration * synth_samplerate self\<rfloor>"
proof -
  from assms have sr: "synth_samplerate self \<noteq> 0" and fr: "frequency \<noteq> 0" by auto
  have "\<exists>wave. wave_square self frequency amplitude phase bias fm_lfo = Inr wave \<and> (\<forall>n. length (gtake n wave) = n)"
    using assms sr fr
    by (cases fm_lfo) (simp_all add: wave_square_def check_and_get_scale_valid Square_endless FastSquare_endless)
  then obtain wave where w: "wave_square self frequency amplitude phase bias fm_lfo = Inr wave"
    and e: "\<And>n. length (gtake n wave) = n" by blast
  from renders_endless [OF w e, of self duration] show ?thesis
    unfolding square_def .
qed

lemma square_h_renders:
  assumes "0 < frequency" and "frequency \<le> synth_samplerate self / 2"
    and "0 \<le> amplitude" and "amplitude \<le> 1" and "- 1 \<le> bias" and "bias \<le> 1"
  shows "\<exists>wave. wave_square_h self frequency num_harmonics amplitude phase bias fm_lfo = Inr wave
           \<and> square_h self frequency duration num_harmonics amplitude phase bias fm_lfo
               = Inr (map py_int (gtake (nat \<lfloor>duration * synth_samplerate self\<rfloor>) wave))
           \<and> length (gtake (nat \<lfloor>duration * synth_samplerate self\<rfloor>) wave) = nat \<lfloor>duration * synth_samplerate self\<rfloor>"
proof -
  from assms have sr: "synth_samplerate self \<noteq> 0" and fr: "frequency \<noteq> 0" by auto
  have "\<exists>wave. wave_square_h self frequency num_harmonics amplitude phase bias fm_lfo = Inr wave \<and> (\<forall>n. length (gtake n wave) = n)"
    using assms sr fr
    by (simp add: wave_square_h_def check_and_get_scale_valid SquareH_def Harmonics_endless)
  then obtain wave where w: "wave_square_h self frequency num_harmonics amplitude phase bias fm_lfo = Inr wave"
    and e: "\<And>n. length (gtake n wave) = n" by blast
  from renders_endless [OF w e, of self duration] show ?thesis
    unfolding square_h_def .
qed

lemma triangle_renders:
  assumes "0 < frequency" and "frequency \<le> synth_samplerate self / 2"
    and "0 \<le> amplitude" and "amplitude \<le> 1" and "- 1 \<le> bias" and "bias \<le> 1"
  shows "\<exists>wave. wave_triangle self frequency amplitude phase bias fm_lfo = Inr wave
           \<and> triangle self frequency duration amplitude phase bias fm_lfo
               = Inr (map py_int (gtake (nat \<lfloor>duration * synth_samplerate self\<rfloor>) wave))
           \<and> length (gtake (nat \<lfloor>duration * synth_samplerate self\<rfloor>) wave) = nat \<lfloor>duration * synth_samplerate self\<rfloor>"
proof -
  from assms have sr: "synth_samplerate self \<noteq> 0" and fr: "frequency \<noteq> 0" by auto
  have "\<exists>wave. wave_triangle self frequency amplitude phase bias fm_lfo = Inr wave \<and> (\<forall>n. length (gtake n wave) = n)"
    using assms sr fr
    by (cases fm_lfo) (simp_all add: wave_triangle_def check_and_get_scale_valid Triangle_endless FastTriangle_endless)
  then obtain wave where w: "wave_triangle self frequency amplitude phase bias fm_lfo = Inr wave"
    and e: "\<And>n. length (gtake n wave) = n" by blast
  from renders_endless [OF w e, of self duration] show ?thesis
    unfolding triangle_def .
qed

lemma sawtooth_renders:
  assumes "0 < frequency" and "frequency \<le> synth_samplerate self / 2"
    and "0 \<le> amplitude" and "amplitude \<le> 1" and "- 1 \<le> bias" and "bias \<le> 1"
  shows "\<exists>wave. wave_sawtooth self frequency amplitude phase bias fm_lfo = Inr wave
           \<and> sawtooth self frequency duration amplitude phase bias fm_lfo
               = Inr (map py_int (gtake (nat \<lfloor>duration * synth_samplerate self\<rfloor>) wave))
           \<and> length (gtake (nat \<lfloor>duration * synth_samplerate self\<rfloor>) wave) = nat \<lfloor>duration * synth_samplerate self\<rfloor>"
proof -
  from assms have sr: "synth_samplerate self \<noteq> 0" and fr: "frequency \<noteq> 0" by auto
  have "\<exists>wave. wave_sawtooth self frequency amplitude phase bias fm_lfo = Inr wave \<and> (\<forall>n. length (gtake n wave) = n)"
    using assms sr fr
    by (cases fm_lfo) (simp_all add: wave_sawtooth_def check_and_get_scale_valid Sawtooth_endless FastSawtooth_endless)
  then obtain wave where w: "wave_sawtooth self frequency amplitude phase bias fm_lfo = Inr wave"
    and e: "\<And>n. length (gtake n wave) = n" by blast
  from renders_endless [OF w e, of self duration] show ?thesis
    unfolding sawtooth_def .
qed

lemma sawtooth_h_renders:
  assumes "0 < frequency" and "frequency \<le> synth_samplerate self / 2"
    and "0 \<le> amplitude" and "amplitude \<le> 1" and "- 1 \<le> bias" and "bias \<le> 1"
  shows "\<exists>wave. wave_sawtooth_h self frequency num_harmonics amplitude phase bias fm_lfo = Inr wave
           \<and> sawtooth_h self frequency duration num_harmonics amplitude phase bias fm_lfo
               = Inr (map py_int (gtake (nat \<lfloor>duration * synth_samplerate self\<rfloor>) wave))
           \<and> length (gtake (nat \<lfloor>duration * synth_samplerate self\<rfloor>) wave) = nat \<lfloor>duration * synth_samplerate self\<rfloor>"
proof -
  from assms have sr: "synth_samplerate self \<noteq> 0" and fr: "frequency \<noteq> 0" by auto
  have "\<exists>wave. wave_sawtooth_h self frequency num_harmonics amplitude phase bias fm_lfo = Inr wave \<and> (\<forall>n. length (gtake n wave) = n)"
    using assms sr fr
    by (simp add: wave_sawtooth_h_def check_and_get_scale_valid SawtoothH_def gtake_map_gen Harmonics_endless)
  then obtain wave where w: "wave_sawtooth_h self frequency num_harmonics amplitude phase bias fm_lfo = Inr wave"
    and e: "\<And>n. length (gtake n wave) = n" by blast
  from renders_endless [OF w e, of self duration] show ?thesis
    unfolding sawtooth_h_def .
qed

lemma harmonics_renders:
  assumes "0 < frequency" and "frequency \<le> synth_samplerate self / 2"
    and "0 \<le> amplitude" and "amplitude \<le> 1" and "- 1 \<le> bias" and "bias \<le> 1"
  shows "\<exists>wave. wave_harmonics self frequency num_harmonics amplitude phase bias only_even only_odd fm_lfo = Inr wave
           \<and> harmonics self frequency duration num_harmonics amplitude phase bias only_even only_odd fm_lfo
               = Inr (map py_int (gtake (nat \<lfloor>duration * synth_samplerate self\<rfloor>) wave))
           \<and> length (gtake (nat \<lfloor>duration * synth_samplerate self\<rfloor>) wave) = nat \<lfloor>duration * synth_samplerate self\<rfloor>"
proof -
  from assms have sr: "synth_samplerate self \<noteq> 0" and fr: "frequency \<noteq> 0" by auto
  have "\<exists>wave. wave_harmonics self frequency num_harmonics amplitude phase bias only_even only_odd fm_lfo = Inr wave \<and> (\<forall>n. length (gtake n wave) = n)"
    using assms sr fr
    by (simp add: wave_harmonics_def check_and_get_scale_valid Harmonics_endless)
  then obtain wave where w: "wave_harmonics self frequency num_harmonics amplitude phase bias only_even only_odd fm_lfo = Inr wave"
    and e: "\<And>n. length (gtake n wave) = n" by blast
  from renders_endless [OF w e, of self duration] show ?thesis
    unfolding harmonics_def .
qed

lemma pulse_renders:
  assumes "0 < frequency" and "frequency \<le> synth_samplerate self / 2"
    and "0 \<le> amplitude" and "amplitude \<le> 1" and "- 1 \<le> bias" and "bias \<le> 1"
    and "0 \<le> pulsewidth" and "pulsewidth \<le> 1"
  shows "\<exists>wave. wave_pulse self frequency amplitude phase bias pulsewidth fm_lfo pwm_lfo = Inr wave
           \<and> pulse self frequency duration amplitude phase bias pulsewidth fm_lfo pwm_lfo
               = Inr (map py_int (gtake (nat \<lfloor>duration * synth_samplerate self\<rfloor>) wave))
           \<and> length (gtake (nat \<lfloor>duration * synth_samplerate self\<rfloor>) wave) = nat \<lfloor>duration * synth_samplerate self\<rfloor>"
proof -
  from assms have sr: "synth_samplerate self \<noteq> 0" and fr: "frequency \<noteq> 0" by auto
  have "\<exists>wave. wave_pulse self frequency amplitude phase bias pulsewidth fm_lfo pwm_lfo = Inr wave
          \<and> (\<forall>n. length (gtake n wave) = n)"
    using assms sr fr
    by (cases fm_lfo)
      (simp_all add: wave_pulse_def check_and_get_scale_valid Pulse_endless FastPulse_endless)
  then obtain wave where
    w: "wave_pulse self frequency amplitude phase bias pulsewidth fm_lfo pwm_lfo = Inr wave"
    and e: "\<And>n. length (gtake n wave) = n" by blast
  from renders_endless [OF w e, of self duration] show ?thesis
    unfolding pulse_def .
qed

lemma white_noise_renders:
  assumes "1 \<le> synth_samplerate self / 2"
    and "0 \<le> amplitude" and "amplitude \<le> 1" and "- 1 \<le> bias" and "bias \<le> 1"
  shows "\<exists>wave. wave_white_noise self rng amplitude bias = Inr wave
           \<and> white_noise self rng duration amplitude bias
               = Inr (map py_int (gtake (nat \<lfloor>duration * synth_samplerate self\<rfloor>) wave))
           \<and> length (gtake (nat \<lfloor>duration * synth_samplerate self\<rfloor>) wave) = nat \<lfloor>duration * synth_samplerate self\<rfloor>"
proof -
  have "\<exists>wave. wave_white_noise self rng amplitude bias = Inr wave
          \<and> (\<forall>n. length (gtake n wave) = n)"
    using assms
    by (simp add: wave_white_noise_def check_and_get_scale_valid WhiteNoise_def
        WhiteNoise_loop_endless)
  then obtain wave where w: "wave_white_noise self rng amplitude bias = Inr wave"
    and e: "\<And>n. length (gtake n wave) = n" by blast
  from renders_endless [OF w e, of self duration] show ?thesis
    unfolding white_noise_def .
qed

lemma linear_renders:
  assumes "py_int (duration * synth_samplerate self) \<noteq> 1"
  shows "\<exists>wave. wave_linear self duration start_amp finish_amp = Inr wave
           \<and> linear self duration start_amp finish_amp
               = Inr (map py_int (gtake (nat \<lfloor>duration * synth_samplerate self\<rfloor>) wave))
           \<and> length (gtake (nat \<lfloor>duration * synth_samplerate self\<rfloor>) wave) = nat \<lfloor>duration * synth_samplerate self\<rfloor>"
proof -
  have "\<exists>wave. wave_linear self duration start_amp finish_amp = Inr wave
          \<and> (\<forall>n. length (gtake n wave) = n)"
    using assms
    by (simp add: wave_linear_def py_div_def Linear_def Linear_loop_endless)
  then obtain wave where w: "wave_linear self duration start_amp finish_amp = Inr wave"
    and e: "\<And>n. length (gtake n wave) = n" by blast
  from renders_endless [OF w e, of self duration] show ?thesis
    unfolding linear_def .
qed


text \<open>
  Claim C1 (the code departs from it).  A finite render of duration \<open>d\<close> should give
  \<open>\<lfloor>d * samplerate\<rfloor>\<close> samples, one pull each.  For \<^verbatim>\<open>linear\<close> with a duration
  of one sample the construction divides by zero and no buffer is produced.
\<close>

theorem linear_render_of_one_sample_fails:
  "linear \<lparr>synth_samplerate = 44100, synth_samplewidth = 2\<rparr> (3 / 100000) 0 1
     = Inl ZeroDivisionError
   \<and> nat \<lfloor>3 / 100000 * synth_samplerate \<lparr>synth_samplerate = 44100, synth_samplewidth = 2\<rparr>\<rfloor> = 1"
  by (simp add: linear_def render_of_def wave_linear_def py_div_def py_int_def)

section \<open>Clipping\<close>

lemma float_info_min_pos: "0 < float_info_min"
  by (simp add: float_info_min_def)

text \<open>With only a minimum given, values between the minimum and the largest float pass.\<close>

lemma clip_minimum_only_passes:
  "minimum \<le> v \<Longrightarrow> v \<le> float_info_max \<Longrightarrow> max (min v float_info_max) minimum = v"
  by simp

text \<open>
  Claim C7 (the code departs from it).  Clipping with only a maximum should pass every
  value below the maximum, the negative ones included.  The default of the unset minimum
  is \<^verbatim>\<open>sys.float_info.min\<close>, the smallest positive normal float, so a constant
  source of \<open>-0.5\<close> clipped at the maximum 1 yields that tiny positive number.
\<close>

theorem clip_maximum_only_lifts_negative:
  "map_sum id (\<lambda>c. gtake 2 (osc_generator c))
     (clip \<lparr>osc_samplerate = 44100, osc_generator = Linear (- 1 / 2) 0 (- 1) 1 44100\<rparr>
        None (Some 1))
   = Inr [float_info_min, float_info_min] \<and> float_info_min \<noteq> - 1 / 2"
proof -
  have m: "max (- (1 / 2)) float_info_min = float_info_min"
    using float_info_min_pos by (simp add: max_def)
  have "gtake 2 (map_gen (\<lambda>v. max (min v 1) float_info_min) (Linear (- 1 / 2) 0 (- 1) 1 44100))
        = [float_info_min, float_info_min]"
    apply (simp add: Linear_def eval_nat_numeral)
    apply (subst Linear_loop.code, simp add: m)
    apply (subst Linear_loop.code, simp add: m)
    done
  moreover have "float_info_min \<noteq> - 1 / 2" using float_info_min_pos by simp
  ultimately show ?thesis by (simp add: clip_def FilteredOscillator_def)
qed

section \<open>Delay\<close>

lemma skip_loop_object: "0 < n \<Longrightarrow> skip_loop n (Oscillator obj) = Inl TypeError"
  by (cases n) simp_all

text \<open>A delay that is not negative emits the zeros and then relays the source.\<close>

lemma delay_nonnegative:
  "0 \<le> seconds \<Longrightarrow>
   osc_generator (delay self seconds)
     = yield_zeros (nat \<lfloor>seconds * osc_samplerate self\<rfloor>) (osc_generator self)"
  by (simp add: delay_def FilteredOscillator_def delayfunc_def nat_py_int mult.commute)

text \<open>Handed an iterator, the wrapper function does skip ahead.\<close>

lemma skip_iterator:
  "length (gtake n g) = n \<Longrightarrow> skip_loop n (Iterator g) = Inr (Iterator (gdrop n g))"
proof (induction n arbitrary: g)
  case 0
  then show ?case by simp
next
  case (Suc n)
  then show ?case by (cases g) simp_all
qed

lemma delayfunc_iterator_skips:
  assumes neg: "seconds < 0"
    and prod: "length (gtake (nat \<lfloor>- seconds * samplerate\<rfloor>) g) = nat \<lfloor>- seconds * samplerate\<rfloor>"
  shows "delayfunc samplerate seconds (Iterator g) = gdrop (nat \<lfloor>- seconds * samplerate\<rfloor>) g"
proof -
  define N where "N = nat (py_int (- samplerate * seconds))"
  have N: "N = nat \<lfloor>- seconds * samplerate\<rfloor>"
    by (simp add: N_def nat_py_int mult.commute)
  have sk: "skip_loop N (Iterator g) = Inr (Iterator (gdrop N g))"
    using skip_iterator [of N g] prod unfolding N by simp
  have "delayfunc samplerate seconds (Iterator g)
          = (case skip_loop N (Iterator g) of Inl e \<Rightarrow> Raise e | Inr osc' \<Rightarrow> py_iter osc')"
    unfolding delayfunc_def N_def using neg by (simp only: if_True)
  also have "\<dots> = gdrop N g" by (simp add: sk)
  finally show ?thesis unfolding N .
qed

text \<open>
  Claim C5 (the code departs from it).  A negative delay should discard source samples
  and relay the rest.  The wrapper function is handed the oscillator object itself and
  calls \<^verbatim>\<open>next\<close> on it, which only an iterator supports: the first pull raises.
\<close>

theorem delay_negative_raises:
  "osc_generator
     (delay \<lparr>osc_samplerate = 44100, osc_generator = FastSine 440 1 0 0 44100\<rparr> (- 1))
   = Raise TypeError"
  by (simp add: delay_def FilteredOscillator_def delayfunc_def py_int_def skip_loop_object)

section \<open>The duty factor of the pulse oscillators\<close>













section \<open>The number of echo taps\<close>

lemma py_int_min_floor:
  assumes "0 \<le> l"
  shows "py_int (min (of_int amount) l) = min amount \<lfloor>l\<rfloor>"
proof (cases "of_int amount \<le> l")
  case True
  then have "amount \<le> \<lfloor>l\<rfloor>" by (simp add: le_floor_iff)
  with True show ?thesis by (simp add: min_def py_int_def)
next
  case False
  then have "\<lfloor>l\<rfloor> < amount" by (simp add: floor_less_iff)
  with False assms show ?thesis by (simp add: min_def py_int_def)
qed

lemma log_threshold_pos:
  assumes "0 < decay" "decay < 1"
  shows "0 < log decay (1 / 10 ^ 6)"
proof -
  have "ln decay < 0" using assms by simp
  moreover have "ln (1 / 10 ^ 6 :: real) < 0" by simp
  ultimately show ?thesis unfolding log_def by (simp add: divide_neg_neg)
qed

lemma py_log_decay:
  assumes "0 < decay" "decay < 1"
  shows "py_log (1 / 1000000) decay = Inr (log decay (1 / 1000000))"
  using assms by (simp add: py_log_def log_def)

lemma py_log_nonpositive: "decay \<le> 0 \<Longrightarrow> py_log 0.000001 decay = Inl ValueError"
  by (simp add: py_log_def)

lemma echo_taps_loop_length: "length (echo_taps_loop n dly decay echo_dly amp) = n"
  by (induction n arbitrary: echo_dly amp) simp_all

lemma floor_log_bounds:
  assumes "0 < decay" "decay < 1"
  defines "K \<equiv> \<lfloor>log decay (1 / 10 ^ 6)\<rfloor>"
  shows "0 \<le> K" "1 / 10 ^ 6 \<le> decay ^ nat K" "decay ^ (nat K + 1) < 1 / 10 ^ 6"
proof -
  let ?L = "log decay (1 / 10 ^ 6)"
  have Lpos: "0 < ?L" by (rule log_threshold_pos [OF assms(1,2)])
  then show K0: "0 \<le> K" unfolding K_def by simp
  have pL: "decay powr ?L = 1 / 10 ^ 6"
    using assms(1,2) by (intro powr_log_cancel) auto
  have "real_of_int K \<le> ?L" unfolding K_def by simp
  then have "decay powr ?L \<le> decay powr (real_of_int K)"
    using assms(1,2) by (intro powr_mono') auto
  moreover have "decay powr (real_of_int K) = decay ^ nat K"
    using K0 assms(1) by (simp add: powr_real_of_int)
  ultimately show "1 / 10 ^ 6 \<le> decay ^ nat K" using pL by simp
  have "?L < real_of_int (K + 1)" unfolding K_def by linarith
  then have "decay powr (real_of_int (K + 1)) < decay powr ?L"
    using assms(1,2) by (intro powr_less_mono') auto
  moreover have "decay powr (real_of_int (K + 1)) = decay ^ (nat K + 1)"
    using K0 assms(1) by (simp add: powr_add powr_real_of_int)
  ultimately show "decay ^ (nat K + 1) < 1 / 10 ^ 6" using pL by simp
qed

text \<open>
  Claim C4, as amended.  For a decay strictly between 0 and 1 the constructor replaces
  \<open>amount\<close> by the minimum of \<open>amount\<close> and the floor of the logarithm of \<open>1e-6\<close> to the base
  \<open>decay\<close>, and that floor is the last tap count
  whose gain \<open>decay^k\<close> is still at least \<open>1e-6\<close>; for a decay of 1 or more the amount is
  kept.  The generator then makes one tap per unit of the stored amount.
\<close>

theorem echo_amount_capped:
  "(0 < decay \<and> decay < 1 \<longrightarrow>
      map_sum id echo_amount (EchoingOscillator_init osc after amount dly decay)
        = Inr (min amount \<lfloor>log decay (1 / 10 ^ 6)\<rfloor>)
      \<and> 0 \<le> \<lfloor>log decay (1 / 10 ^ 6)\<rfloor>
      \<and> 1 / 10 ^ 6 \<le> decay ^ nat \<lfloor>log decay (1 / 10 ^ 6)\<rfloor>
      \<and> decay ^ (nat \<lfloor>log decay (1 / 10 ^ 6)\<rfloor> + 1) < 1 / 10 ^ 6)
   \<and> (1 \<le> decay \<longrightarrow>
      map_sum id echo_amount (EchoingOscillator_init osc after amount dly decay) = Inr amount)
   \<and> (0 \<le> echo_amount e \<longrightarrow> map_sum id length (echo_taps e) = Inr (nat (echo_amount e)))"
proof -
  have a: "map_sum id echo_amount (EchoingOscillator_init osc after amount dly decay)
        = Inr (min amount \<lfloor>log decay (1 / 10 ^ 6)\<rfloor>)" if "0 < decay" "decay < 1"
  proof -
    have "0 \<le> log decay (1 / 10 ^ 6)" using log_threshold_pos [OF that] by simp
    from py_int_min_floor [OF this, of amount] that show ?thesis
      by (simp add: EchoingOscillator_init_def py_log_decay)
  qed
  have b: "map_sum id echo_amount (EchoingOscillator_init osc after amount dly decay) = Inr amount"
    if "1 \<le> decay"
    using that by (simp add: EchoingOscillator_init_def)
  have c: "map_sum id length (echo_taps e) = Inr (nat (echo_amount e))" if "0 \<le> echo_amount e"
    using that by (simp add: echo_taps_def echo_taps_loop_length)
  from a b c floor_log_bounds [of decay] show ?thesis by blast
qed

lemma log_half: "\<lfloor>log (1 / 2) (1 / 10 ^ 6)\<rfloor> = 19"
proof -
  have "log (1 / 2) (1 / 10 ^ 6) = log 2 (10 ^ 6)"
    by (simp add: log_def ln_div field_simps)
  moreover have "\<lfloor>log 2 (10 ^ 6 :: real)\<rfloor> = 19"
    by (subst floor_log_eq_powr_iff) simp_all
  ultimately show ?thesis by simp
qed


theorem echo_amount_capped_witness:
  "(0::real) < 1 / 2 \<and> (1 / 2 :: real) < 1
   \<and> map_sum id echo_amount
        (EchoingOscillator_init \<lparr>osc_samplerate = 44100, osc_generator = Return\<rparr>
           0 100 (1 / 4) (1 / 2))
      = Inr 19
   \<and> (1::real) \<le> 2
   \<and> map_sum id echo_amount
        (EchoingOscillator_init \<lparr>osc_samplerate = 44100, osc_generator = Return\<rparr>
           0 100 (1 / 4) 2)
      = Inr 100
   \<and> map_sum id length
        (echo_taps \<lparr>echo_samplerate = 44100,
                     echo_oscillator = \<lparr>osc_samplerate = 44100, osc_generator = Return\<rparr>,
                     echo_after = 0, echo_amount = 3, echo_delay = 1 / 4, echo_decay = 1 / 2\<rparr>)
      = Inr 3"
  using echo_amount_capped [of "1 / 2" "\<lparr>osc_samplerate = 44100, osc_generator = Return\<rparr>"
      0 100 "1 / 4"
      "\<lparr>echo_samplerate = 44100,
        echo_oscillator = \<lparr>osc_samplerate = 44100, osc_generator = Return\<rparr>,
        echo_after = 0, echo_amount = 3, echo_delay = 1 / 4, echo_decay = 1 / 2\<rparr>"]
    echo_amount_capped [of 2 "\<lparr>osc_samplerate = 44100, osc_generator = Return\<rparr>"
      0 100 "1 / 4"
      "\<lparr>echo_samplerate = 44100,
        echo_oscillator = \<lparr>osc_samplerate = 44100, osc_generator = Return\<rparr>,
        echo_after = 0, echo_amount = 3, echo_delay = 1 / 4, echo_decay = 1 / 2\<rparr>"]
    log_half
  by simp

text \<open>
  Claim C4 as stated fails: it speaks of every decay below 1, and for a decay that is
  not positive \<^verbatim>\<open>math.log\<close> raises, so no echo is constructed.
\<close>

theorem echo_nonpositive_decay_counterexample:
  "EchoingOscillator_init \<lparr>osc_samplerate = 44100, osc_generator = FastSine 440 1 0 0 44100\<rparr>
     0 10 (1 / 4) (- 1 / 2) = Inl ValueError"
  by (simp add: EchoingOscillator_init_def py_log_def)

section \<open>The harmonics oscillator\<close>






















section \<open>The ADSR envelope: segments and pulls\<close>

















text \<open>Attack and release ramps on a constant source, then silence.\<close>

lemma envelope_example_run:
  "env_run 14
     \<lparr>env_attack = 1, env_decay = 0, env_sustain = 0, env_sustain_level = 1 / 2,
      env_release = 1, env_stop_at_end = False, env_cycle = False, env_samplerate = 2\<rparr>
     (env_start (Yield 1 (Yield 1 (Yield 1 (Yield 1 Return)))))
   = [(Attack, 0), (Attack, 1 / 2), (Release, 1 / 2), (Release, 1 / 4), (Silence, 0)]"
  by (simp add: eval_nat_numeral env_step_def env_start_def py_div_def yield_next_def ramp_on_def
      end_time_sustain_def end_time_decay_def end_time_release_def)

end
